theory Spec2Isabelle
  imports Complex_Main
begin

section \<open>Strings of the runtime\<close>

text \<open>
  A JavaScript string is a sequence of UTF-16 code units; \<open>length\<close> counts code units.
  A code unit is modelled by its number. \<open>js\<close> turns an ASCII literal into such a string.
\<close>

type_synonym jsstring = "nat list"

definition js :: "string \<Rightarrow> jsstring" where
  "js s = map of_char s"

text \<open>
  White space and line terminators of the language: what \<open>String.prototype.trim\<close> strips
  and what the class \<open>\s\<close> of a regular expression matches.
\<close>

definition isSpace :: "nat \<Rightarrow> bool" where
  "isSpace c \<longleftrightarrow>
     c = 9 \<or> c = 10 \<or> c = 11 \<or> c = 12 \<or> c = 13 \<or> c = 32 \<or> c = 160 \<or> c = 5760 \<or>
     (8192 \<le> c \<and> c \<le> 8202) \<or> c = 8232 \<or> c = 8233 \<or> c = 8239 \<or> c = 8287 \<or>
     c = 12288 \<or> c = 65279"

definition trim :: "jsstring \<Rightarrow> jsstring" where
  "trim s = rev (dropWhile isSpace (rev (dropWhile isSpace s)))"

section \<open>Regular expressions\<close>

text \<open>
  The fragment of the regular-expression language that the patterns of \<open>structureResume\<close>
  use. All patterns with letters carry the flag \<open>i\<close>; without the flag \<open>u\<close> the
  canonical form of an ASCII letter is its upper-case letter and no code unit from 128 on
  has a canonical form below 128, so comparing the ASCII upper-case forms is exact for the
  ASCII literals of the patterns. The flag \<open>s\<close> makes \<open>.\<close> match every code unit; no
  pattern carries the flag \<open>m\<close>, so \<open>$\<close> is the end of the input.
\<close>

datatype cclass =
    AnyChar       \<comment> \<open>\<open>.\<close> under the flag \<open>s\<close>\<close>
  | ColonSpace    \<comment> \<open>\<open>[:\s]\<close>\<close>
  | Space         \<comment> \<open>\<open>\s\<close>\<close>
  | Digit         \<comment> \<open>\<open>\d\<close>\<close>
  | SkillSep      \<comment> \<open>the class of line 281: comma, U+00E2, U+20AC, U+00A2, bar, line feed\<close>

datatype regex =
    Str jsstring          \<comment> \<open>a literal sequence, compared case-insensitively\<close>
  | Cls cclass
  | Seq regex regex
  | Alt regex regex
  | Star cclass           \<comment> \<open>greedy \<open>c*\<close> of a class\<close>
  | LazyStar cclass       \<comment> \<open>lazy \<open>c*?\<close> of a class\<close>
  | Group regex           \<comment> \<open>the capturing group number 1\<close>
  | Look regex            \<comment> \<open>the lookahead \<open>(?=r)\<close>\<close>
  | Eos                   \<comment> \<open>\<open>$\<close>\<close>

definition canonicalize :: "nat \<Rightarrow> nat" where
  "canonicalize c = (if 97 \<le> c \<and> c \<le> 122 then c - 32 else c)"

fun cmatch :: "cclass \<Rightarrow> nat \<Rightarrow> bool" where
  "cmatch AnyChar c = True"
| "cmatch ColonSpace c = (c = 58 \<or> isSpace c)"
| "cmatch Space c = isSpace c"
| "cmatch Digit c = (48 \<le> c \<and> c \<le> 57)"
| "cmatch SkillSep c = (c = 44 \<or> c = 226 \<or> c = 8364 \<or> c = 162 \<or> c = 124 \<or> c = 10)"

fun ciPrefix :: "jsstring \<Rightarrow> jsstring \<Rightarrow> bool" where
  "ciPrefix [] s = True"
| "ciPrefix (p # ps) [] = False"
| "ciPrefix (p # ps) (x # xs) = (canonicalize p = canonicalize x \<and> ciPrefix ps xs)"

text \<open>
  The backtracking matcher, in the continuation style of the language definition: a
  matcher takes what follows it as a continuation and gives the first success in
  priority order. A state is the input still to be read and the capture of group 1.
\<close>

type_synonym mstate = "jsstring \<times> jsstring option"

fun starGreedy :: "cclass \<Rightarrow> (jsstring \<Rightarrow> 'a option) \<Rightarrow> jsstring \<Rightarrow> 'a option" where
  "starGreedy c k [] = k []"
| "starGreedy c k (x # xs) =
     (if cmatch c x
      then (case starGreedy c k xs of Some r \<Rightarrow> Some r | None \<Rightarrow> k (x # xs))
      else k (x # xs))"

fun starLazy :: "cclass \<Rightarrow> (jsstring \<Rightarrow> 'a option) \<Rightarrow> jsstring \<Rightarrow> 'a option" where
  "starLazy c k [] = k []"
| "starLazy c k (x # xs) =
     (case k (x # xs) of Some r \<Rightarrow> Some r
      | None \<Rightarrow> if cmatch c x then starLazy c k xs else None)"

primrec rmatch :: "regex \<Rightarrow> (mstate \<Rightarrow> mstate option) \<Rightarrow> mstate \<Rightarrow> mstate option" where
  "rmatch (Str w) k st =
     (if ciPrefix w (fst st) then k (drop (length w) (fst st), snd st) else None)"
| "rmatch (Cls c) k st =
     (case fst st of [] \<Rightarrow> None
      | x # xs \<Rightarrow> if cmatch c x then k (xs, snd st) else None)"
| "rmatch (Seq a b) k st = rmatch a (rmatch b k) st"
| "rmatch (Alt a b) k st =
     (case rmatch a k st of Some r \<Rightarrow> Some r | None \<Rightarrow> rmatch b k st)"
| "rmatch (Star c) k st = starGreedy c (\<lambda>s. k (s, snd st)) (fst st)"
| "rmatch (LazyStar c) k st = starLazy c (\<lambda>s. k (s, snd st)) (fst st)"
| "rmatch (Group a) k st =
     rmatch a (\<lambda>st'. k (fst st', Some (take (length (fst st) - length (fst st')) (fst st)))) st"
| "rmatch (Look a) k st =
     (case rmatch a Some st of None \<Rightarrow> None | Some st' \<Rightarrow> k (fst st, snd st'))"
| "rmatch Eos k st = (if fst st = [] then k st else None)"

text \<open>\<open>exec\<close> tries the start positions from left to right, the last one being the end.\<close>

fun exec :: "regex \<Rightarrow> jsstring \<Rightarrow> mstate option" where
  "exec r [] = rmatch r Some ([], None)"
| "exec r (x # xs) =
     (case rmatch r Some (x # xs, None) of Some st \<Rightarrow> Some st | None \<Rightarrow> exec r xs)"

text \<open>
  \<open>m && m[1]\<close> for \<open>m = text.match(r)\<close>: the capture of group 1 when there is a match and
  the capture is not the empty string.
\<close>

definition matchGroup1 :: "regex \<Rightarrow> jsstring \<Rightarrow> jsstring option" where
  "matchGroup1 r s =
     (case exec r s of None \<Rightarrow> None
      | Some st \<Rightarrow> (case snd st of None \<Rightarrow> None
                    | Some c \<Rightarrow> if c = [] then None else Some c))"

text \<open>
  \<open>String.prototype.split\<close> with a regular expression without capturing groups: at each
  position \<open>q\<close> the separator is tried at exactly \<open>q\<close>; a failure, or an empty match right
  at the start \<open>p\<close> of the current piece, moves \<open>q\<close> by one; a match closes the piece
  and continues behind the match. The separator is not tried at the end of the string.
  \<open>acc\<close> is the piece from \<open>p\<close> to \<open>q\<close>, \<open>skip\<close> counts the code units of a match still
  to be passed.
\<close>

definition sepLen :: "regex \<Rightarrow> jsstring \<Rightarrow> nat option" where
  "sepLen r s =
     (case rmatch r Some (s, None) of None \<Rightarrow> None
      | Some st \<Rightarrow> Some (length s - length (fst st)))"

fun splitLoop :: "regex \<Rightarrow> jsstring \<Rightarrow> nat \<Rightarrow> jsstring \<Rightarrow> jsstring list" where
  "splitLoop r acc skip [] = [acc]"
| "splitLoop r acc (Suc n) (x # xs) = splitLoop r acc n xs"
| "splitLoop r acc 0 (x # xs) =
     (case sepLen r (x # xs) of
        None \<Rightarrow> splitLoop r (acc @ [x]) 0 xs
      | Some 0 \<Rightarrow> if acc = [] then splitLoop r [x] 0 xs else acc # splitLoop r [x] 0 xs
      | Some (Suc n) \<Rightarrow> acc # splitLoop r [] n xs)"

definition split :: "regex \<Rightarrow> jsstring \<Rightarrow> jsstring list" where
  "split r s =
     (if s = [] then (case sepLen r [] of None \<Rightarrow> [[]] | Some n \<Rightarrow> [])
      else splitLoop r [] 0 s)"

section \<open>The resume structurer\<close>

text \<open>
  The four patterns of \<open>structureResume\<close> share one shape:
  \<open>(?:H1|...|Hn)[:\s]*(.*?)(?=\n\s*(?:S1|...|Sm|$))\<close> with the flags \<open>i\<close> and \<open>s\<close>.
\<close>

fun oneOf :: "regex list \<Rightarrow> regex" where
  "oneOf [] = Str []"
| "oneOf [r] = r"
| "oneOf (r # rs) = Alt r (oneOf rs)"

definition heading :: "string list \<Rightarrow> regex" where
  "heading heads = oneOf (map (\<lambda>w. Str (js w)) heads)"

definition boundary :: "string list \<Rightarrow> regex" where
  "boundary stops =
     Seq (Str [10]) (Seq (Star Space) (oneOf (map (\<lambda>w. Str (js w)) stops @ [Eos])))"

definition sectionRe :: "string list \<Rightarrow> string list \<Rightarrow> regex" where
  "sectionRe heads stops =
     Seq (heading heads)
       (Seq (Star ColonSpace) (Seq (Group (LazyStar AnyChar)) (Look (boundary stops))))"

definition summaryHeadings :: "string list" where
  "summaryHeadings = [''Summary'', ''Profile'', ''About'', ''Objective'']"

definition summaryStops :: "string list" where
  "summaryStops = [''Skills'', ''Experience'', ''Education'', ''Work'', ''Employment'',
     ''Certifications'', ''Contact'']"

definition summaryRe :: regex where
  "summaryRe = sectionRe summaryHeadings summaryStops"

definition skillsHeadings :: "string list" where
  "skillsHeadings = [''Skills'', ''Expertise'', ''Competencies'', ''Technical Skills'']"

definition skillsStops :: "string list" where
  "skillsStops = [''Experience'', ''Education'', ''Work'', ''Employment'', ''Certifications'',
     ''Contact'']"

definition skillsRe :: regex where
  "skillsRe = sectionRe skillsHeadings skillsStops"

definition experienceHeadings :: "string list" where
  "experienceHeadings = [''Experience'', ''Work Experience'', ''Employment'']"

definition experienceStops :: "string list" where
  "experienceStops = [''Education'', ''Skills'', ''Certifications'', ''Contact'']"

definition experienceRe :: regex where
  "experienceRe = sectionRe experienceHeadings experienceStops"

definition educationHeadings :: "string list" where
  "educationHeadings = [''Education'', ''Academic Background'', ''Qualifications'']"

definition educationStops :: "string list" where
  "educationStops = [''Experience'', ''Skills'', ''Certifications'', ''Contact'']"

definition educationRe :: regex where
  "educationRe = sectionRe educationHeadings educationStops"

text \<open>The separator of the skills: \<open>/[,...|\n]/\<close>, one code unit of the class.\<close>

definition skillSepRe :: regex where
  "skillSepRe = Cls SkillSep"

text \<open>
  The separator of the entries:
  \<open>/\n\s*(?=\d{4}|Jan|Feb|Mar|Apr|May|Jun|Jul|Aug|Sep|Oct|Nov|Dec)/i\<close>.
\<close>

definition entrySepRe :: regex where
  "entrySepRe =
     Seq (Str [10]) (Seq (Star Space)
       (Look (oneOf
          (Seq (Cls Digit) (Seq (Cls Digit) (Seq (Cls Digit) (Cls Digit))) #
           map (\<lambda>w. Str (js w))
             [''Jan'', ''Feb'', ''Mar'', ''Apr'', ''May'', ''Jun'', ''Jul'', ''Aug'', ''Sep'',
              ''Oct'', ''Nov'', ''Dec'']))))"

record sections =
  summary :: jsstring
  skills :: "jsstring list"
  experience :: "jsstring list"
  education :: "jsstring list"
  certifications :: "jsstring list"
  contact :: "jsstring \<rightharpoonup> jsstring"
  rawText :: "jsstring option"

definition emptySections :: sections where
  "emptySections = \<lparr> summary = [], skills = [], experience = [], education = [],
     certifications = [], contact = Map.empty, rawText = None \<rparr>"

definition entries :: "jsstring \<Rightarrow> jsstring list" where
  "entries t = filter (\<lambda>entry. 10 < length entry) (map trim (split entrySepRe t))"

definition skillTokens :: "jsstring \<Rightarrow> jsstring list" where
  "skillTokens t = filter (\<lambda>skill. 0 < length skill) (map trim (split skillSepRe t))"

text \<open>
  The body of the \<open>try\<close> block. Every operation in it is total on strings, so the block
  always ends normally (\<open>Inr\<close>); an exception would be \<open>Inl\<close>. An exception
  carries its message.
\<close>

datatype exn = Exn string

definition tryBlock :: "jsstring \<Rightarrow> exn + sections" where
  "tryBlock resumeText =
     (let s0 = emptySections;
          s1 = (case matchGroup1 summaryRe resumeText of
                  None \<Rightarrow> s0 | Some c \<Rightarrow> s0\<lparr>summary := trim c\<rparr>);
          s2 = (case matchGroup1 skillsRe resumeText of
                  None \<Rightarrow> s1 | Some c \<Rightarrow> s1\<lparr>skills := skillTokens c\<rparr>);
          s3 = (case matchGroup1 experienceRe resumeText of
                  None \<Rightarrow> s2 | Some c \<Rightarrow> s2\<lparr>experience := entries c\<rparr>);
          s4 = (case matchGroup1 educationRe resumeText of
                  None \<Rightarrow> s3 | Some c \<Rightarrow> s3\<lparr>education := entries c\<rparr>)
      in Inr s4)"

text \<open>The \<open>catch\<close> clause: the empty structure with the raw text.\<close>

definition catchBlock :: "jsstring \<Rightarrow> sections" where
  "catchBlock resumeText = emptySections\<lparr>rawText := Some resumeText\<rparr>"

definition tryCatch :: "(jsstring \<Rightarrow> exn + sections) \<Rightarrow> jsstring \<Rightarrow> sections" where
  "tryCatch body resumeText =
     (case body resumeText of Inr s \<Rightarrow> s | Inl e \<Rightarrow> catchBlock resumeText)"

text \<open>\<open>structureResume\<close>: the value handed to \<open>setStructuredResume\<close>.\<close>

definition structureResume :: "jsstring \<Rightarrow> sections" where
  "structureResume resumeText = tryCatch tryBlock resumeText"

section \<open>The streamed insight (\<open>analyzeResume\<close>)\<close>

text \<open>
  \<open>chunk.split('\n')\<close>: the pieces between the line feeds, the empty ones too.
\<close>

fun splitOn :: "nat \<Rightarrow> jsstring \<Rightarrow> jsstring list" where
  "splitOn c [] = [[]]"
| "splitOn c (x # xs) =
     (if x = c then [] # splitOn c xs
      else (case splitOn c xs of [] \<Rightarrow> [[x]] | p # ps \<Rightarrow> (x # p) # ps))"

text \<open>\<open>chunk.split('\n').filter(line => line.trim())\<close>\<close>

definition chunkLines :: "jsstring \<Rightarrow> jsstring list" where
  "chunkLines chunk = filter (\<lambda>line. trim line \<noteq> []) (splitOn 10 chunk)"

text \<open>
  \<open>JSON.parse\<close> belongs to the runtime and is a parameter of the model. What the loop
  observes of its result: a syntax error (\<open>Inl\<close>); the value \<open>null\<close>, on which reading
  \<open>.response\<close> throws a type error; or another value, of which \<open>.response\<close> is either
  missing (\<open>None\<close>, the value \<open>undefined\<close>) or present (\<open>Some s\<close>, with \<open>s\<close> the string
  that \<open>+=\<close> appends for it, the string itself when the property is a string).
\<close>

datatype parsed = ParsedNull | ParsedValue "jsstring option"

definition appended :: "jsstring option \<Rightarrow> jsstring" where
  "appended r = (case r of None \<Rightarrow> js ''undefined'' | Some s \<Rightarrow> s)"

record stream =
  outputStr :: jsstring  \<comment> \<open>the local variable \<open>output\<close>\<close>
  insights :: jsstring   \<comment> \<open>the state \<open>insights\<close> shown live\<close>
  logged :: nat          \<comment> \<open>the number of \<open>console.error\<close> calls\<close>

text \<open>The body of \<open>lines.forEach\<close>: a \<open>try\<close> around the parse and the two appends.\<close>

definition onLine :: "(jsstring \<Rightarrow> exn + parsed) \<Rightarrow> stream \<Rightarrow> jsstring \<Rightarrow> stream" where
  "onLine parse st line =
     (case parse line of
        Inl e \<Rightarrow> st\<lparr>logged := logged st + 1\<rparr>
      | Inr ParsedNull \<Rightarrow> st\<lparr>logged := logged st + 1\<rparr>
      | Inr (ParsedValue r) \<Rightarrow>
          st\<lparr>outputStr := outputStr st @ appended r, insights := insights st @ appended r\<rparr>)"

text \<open>
  The \<open>while (true)\<close> loop over \<open>reader.read()\<close>: one round for each chunk that arrives,
  until the transport closes (the end of the list).
\<close>

fun readLoop :: "(jsstring \<Rightarrow> exn + parsed) \<Rightarrow> stream \<Rightarrow> jsstring list \<Rightarrow> stream" where
  "readLoop parse st [] = st"
| "readLoop parse st (chunk # chunks) =
     readLoop parse (foldl (onLine parse) st (chunkLines chunk)) chunks"

text \<open>The text that a line brings when it is well-formed and carries a string.\<close>

definition payload :: "(jsstring \<Rightarrow> exn + parsed) \<Rightarrow> jsstring \<Rightarrow> jsstring" where
  "payload parse line =
     (case parse line of Inr (ParsedValue (Some s)) \<Rightarrow> s | _ \<Rightarrow> [])"

text \<open>
  The lines that the endpoint sends are JSON objects with a property \<open>response\<close>. A line
  is in this format, or damaged, unless it parses to a value other than \<open>null\<close> that has
  no property \<open>response\<close> (for such a value the loop appends the text \<open>undefined\<close>).
\<close>

definition fragmentOk :: "(jsstring \<Rightarrow> exn + parsed) \<Rightarrow> jsstring \<Rightarrow> bool" where
  "fragmentOk parse line =
     (case parse line of Inl e \<Rightarrow> True | Inr ParsedNull \<Rightarrow> True
      | Inr (ParsedValue r) \<Rightarrow> r \<noteq> None)"

section \<open>The upload of a resume (\<open>handleResumeUpload\<close>)\<close>

text \<open>
  A file with its declared type and what the two readers of the platform give for it:
  \<open>FileReader.readAsText\<close> and the conversion \<open>mammoth.extractRawText\<close>.
\<close>

record upload =
  ftype :: string
  readAsText :: "exn + jsstring"
  extractRawText :: "exn + jsstring"

record formData =
  name :: string
  email :: string
  phone :: string
  coverLetter :: jsstring
  resumeText :: jsstring

datatype toast =
    ToastLoading string "string option"
  | ToastSuccess string "string option"
  | ToastError string "string option"

definition extractText :: "upload \<Rightarrow> exn + jsstring" where
  "extractText file =
     (if ftype file = ''text/plain'' then readAsText file
      else if ftype file =
              ''application/vnd.openxmlformats-officedocument.wordprocessingml.document''
            \<or> ftype file = ''application/msword''
      then extractRawText file
      else readAsText file)"

definition handleResumeUpload :: "upload option \<Rightarrow> formData \<Rightarrow> formData \<times> toast list" where
  "handleResumeUpload f fd =
     (case f of
        None \<Rightarrow> (fd, [])
      | Some file \<Rightarrow>
          (case extractText file of
             Inl (Exn msg) \<Rightarrow> (fd, [ToastError (''Error processing resume: '' @ msg) None])
           | Inr resumeText' \<Rightarrow>
               if trim resumeText' = []
               then (fd, [ToastError
                      (''Error processing resume: '' @ ''Could not extract text from the file'')
                      None])
               else (fd\<lparr>resumeText := resumeText'\<rparr>,
                     [ToastSuccess ''Resume processed successfully!'' None])))"

section \<open>Applications and their reviews\<close>

text \<open>The rows of the table \<open>applications\<close> as \<open>ReviewApplications\<close> declares them.\<close>

record AIReview =
  ai_match_score :: real        \<comment> \<open>the field \<open>match_score\<close> of the review\<close>
  matching_keywords :: "string list"
  missing_keywords :: "string list"
  usp :: "string list"
  analysis :: string
  recommendation :: string

record Application =
  app_id :: string               \<comment> \<open>the field \<open>id\<close>\<close>
  candidate_name :: string
  candidate_email :: string
  resume :: jsstring
  coverletter :: jsstring
  status :: string
  match_score :: "real option"   \<comment> \<open>\<open>match_score?\<close>: \<open>None\<close> when absent\<close>
  ai_review :: "AIReview option"

record Job =
  job_id :: string
  title :: string
  description :: jsstring
  requirements :: jsstring

text \<open>
  \<open>supabase.from('applications').update(values).eq('id', i)\<close> when the backend accepts
  the request: the rows with the id take the values. Whether the backend accepts is not
  decided by this code; the functions below take its answers as parameters (\<open>None\<close>: no
  error, \<open>Some msg\<close>: the error with its message).
\<close>

definition dbUpdate :: "string \<Rightarrow> (Application \<Rightarrow> Application) \<Rightarrow> Application list \<Rightarrow> Application list" where
  "dbUpdate i values rows = map (\<lambda>r. if app_id r = i then values r else r) rows"

record reviewState =
  job :: "Job option"
  applications :: "Application list"
  reviewing :: bool
  selectedAnalysis :: "(Application \<times> AIReview) option"
  toasts :: "toast list"
  applicationsTable :: "Application list"   \<comment> \<open>the rows of the job in the backend\<close>

definition fetchJobAndApplications :: "string option \<Rightarrow> reviewState \<Rightarrow> reviewState" where
  "fetchJobAndApplications fetchError w =
     (case fetchError of
        Some msg \<Rightarrow> w\<lparr>toasts := toasts w @ [ToastError msg None]\<rparr>
      | None \<Rightarrow> w\<lparr>applications := applicationsTable w\<rparr>)"

definition messageOr :: "string \<Rightarrow> string \<Rightarrow> string" where
  "messageOr msg dflt = (if msg = [] then dflt else msg)"

text \<open>
  \<open>reviewSingleApplication\<close> (lines 74 to 104): it marks the application as being
  reviewed. It catches every error itself, so it always ends normally.
\<close>

definition reviewSingleApplication ::
  "(string \<Rightarrow> string option) \<Rightarrow> string option \<Rightarrow> Application \<Rightarrow> reviewState \<Rightarrow> reviewState" where
  "reviewSingleApplication updateError fetchError application w =
     (case job w of
        None \<Rightarrow> w\<lparr>toasts := toasts w @ [ToastError ''Job details not found'' None]\<rparr>
      | Some j \<Rightarrow>
          (let tid = Some (''review-'' @ app_id application);
               w1 = w\<lparr>reviewing := True,
                      toasts := toasts w @
                        [ToastLoading (''Analyzing '' @ candidate_name application @
                           CHR 0x27 # ''s application...'') tid]\<rparr>
           in (case updateError (app_id application) of
                 Some msg \<Rightarrow>
                   w1\<lparr>toasts := toasts w1 @
                        [ToastError (''Failed to mark application: '' @
                           messageOr msg ''Unknown error occurred'') tid],
                      reviewing := False\<rparr>
               | None \<Rightarrow>
                   (let w2 = w1\<lparr>applicationsTable :=
                               dbUpdate (app_id application) (\<lambda>r. r\<lparr>status := ''reviewing''\<rparr>)
                                 (applicationsTable w1)\<rparr>;
                        w3 = w2\<lparr>toasts := toasts w2 @
                               [ToastSuccess (''Application marked for review: '' @
                                  candidate_name application) tid]\<rparr>;
                        w4 = fetchJobAndApplications fetchError w3
                    in w4\<lparr>reviewing := False\<rparr>))))"






section \<open>The decision on a candidate (\<open>updateStatus\<close>)\<close>

datatype decision = Selected | Rejected

fun statusOf :: "decision \<Rightarrow> string" where
  "statusOf Selected = ''selected''"
| "statusOf Rejected = ''rejected''"

record insightsState =
  application :: "Application option"   \<comment> \<open>the application loaded, \<open>null\<close> before\<close>
  updating :: bool
  wentBack :: bool                      \<comment> \<open>\<open>navigate(-1)\<close> was called\<close>
  notices :: "toast list"
  stored :: "Application list"          \<comment> \<open>the table \<open>applications\<close> of the backend\<close>

definition updateStatus :: "(string \<Rightarrow> string option) \<Rightarrow> decision \<Rightarrow> insightsState \<Rightarrow> insightsState" where
  "updateStatus updateError d w =
     (case application w of
        None \<Rightarrow> w
      | Some a \<Rightarrow>
          (case updateError (app_id a) of
             Some msg \<Rightarrow> w\<lparr>notices := notices w @ [ToastError msg None], updating := False\<rparr>
           | None \<Rightarrow>
               w\<lparr>stored := dbUpdate (app_id a) (\<lambda>r. r\<lparr>status := statusOf d\<rparr>) (stored w),
                 notices := notices w @
                   [ToastSuccess (''Candidate '' @ statusOf d @ ''!'') None],
                 wentBack := True,
                 updating := False\<rparr>))"

section \<open>The list of applications of \<open>ApplicationReview\<close>\<close>

record Candidate =
  full_name :: string
  cand_email :: string           \<comment> \<open>the field \<open>email\<close>\<close>

record MatchResult =
  score :: "real option"         \<comment> \<open>\<open>None\<close>: no number (\<open>undefined\<close>, \<open>NaN\<close>)\<close>
  details :: string

record ParsedResume =
  application_id :: string
  parsed_data :: string
  pr_match_score :: real         \<comment> \<open>the field \<open>match_score\<close>\<close>
  match_details :: MatchResult

record ReviewRow =
  row_id :: string               \<comment> \<open>the field \<open>id\<close>\<close>
  resume_text :: jsstring
  row_status :: string           \<comment> \<open>the field \<open>status\<close>\<close>
  candidate :: Candidate
  parsed_resume :: "ParsedResume option"

datatype control =
    SelectButton | RejectButton | SelectedBadge | RejectedBadge
  | ParseButton | ParsedInformation | ReviewButton

text \<open>What one list item offers, in the variant with the buttons (lines 236 to 320).\<close>

definition itemControls :: "ReviewRow \<Rightarrow> control list" where
  "itemControls a =
     (if row_status a = ''pending'' then [SelectButton, RejectButton] else []) @
     (if row_status a = ''selected'' then [SelectedBadge] else []) @
     (if row_status a = ''rejected'' then [RejectedBadge] else []) @
     (if parsed_resume a = None then [ParseButton] else []) @
     (if parsed_resume a \<noteq> None then [ParsedInformation] else [])"

text \<open>The same item in \<open>pages/ApplicationReview.tsx\<close> (lines 175 to 192).\<close>

definition itemControlsManual :: "ReviewRow \<Rightarrow> control list" where
  "itemControlsManual a =
     [ReviewButton] @
     (if row_status a = ''selected'' then [SelectedBadge] else []) @
     (if row_status a = ''rejected'' then [RejectedBadge] else [])"

text \<open>
  \<open>handleParseResume\<close> (lines 104 to 138 of the same variant): it stores the parsed data
  and the score of the match in the table \<open>parsed_resumes\<close>. \<open>parseResume\<close> and
  \<open>matchResumeWithJD\<close> of \<open>lib/huggingface\<close> are parameters; \<open>x || 0\<close> is \<open>0\<close> when \<open>x\<close>
  is no number or zero.
\<close>

record parseState =
  shownJob :: "Job option"
  processing :: "string option"
  messages :: "toast list"
  parsedResumes :: "ParsedResume list"   \<comment> \<open>the table \<open>parsed_resumes\<close> of the backend\<close>




section \<open>Notions used in the statements\<close>

text \<open>
  A heading word of the list starts at the front of \<open>s\<close>; the lookahead of a section
  pattern succeeds at the front of \<open>s\<close>; the tokens joined by a separator.
\<close>

definition headingAt :: "string list \<Rightarrow> jsstring \<Rightarrow> bool" where
  "headingAt heads s = list_ex (\<lambda>w. ciPrefix (js w) s) heads"

definition boundaryAt :: "string list \<Rightarrow> jsstring \<Rightarrow> bool" where
  "boundaryAt stops s \<longleftrightarrow> rmatch (boundary stops) Some (s, None) \<noteq> None"

fun joinWith :: "nat \<Rightarrow> jsstring list \<Rightarrow> jsstring" where
  "joinWith c [] = []"
| "joinWith c [t] = t"
| "joinWith c (t # ts) = t @ c # joinWith c ts"

text \<open>What a line adds to the text: nothing when it does not parse or is \<open>null\<close>.\<close>

definition contribution :: "(jsstring \<Rightarrow> exn + parsed) \<Rightarrow> jsstring \<Rightarrow> jsstring" where
  "contribution parse line =
     (case parse line of Inl e \<Rightarrow> [] | Inr ParsedNull \<Rightarrow> [] | Inr (ParsedValue r) \<Rightarrow> appended r)"


text \<open>
  A row after the batch: marked as being reviewed when it is one of the applications of
  the batch and the backend accepted its update, unchanged otherwise.
\<close>

definition marked :: "(string \<Rightarrow> string option) \<Rightarrow> Application list \<Rightarrow> Application \<Rightarrow> Application" where
  "marked updateError as r =
     (if app_id r \<in> app_id ` set as \<and> updateError (app_id r) = None
      then r\<lparr>status := ''reviewing''\<rparr> else r)"


section \<open>Sample data\<close>

definition sampleApplication :: "string \<Rightarrow> string \<Rightarrow> Application" where
  "sampleApplication i st =
     \<lparr>app_id = i, candidate_name = ''Ada'', candidate_email = ''ada@example.org'',
      resume = js ''Skills: Go'', coverletter = [], status = st, match_score = None,
      ai_review = None\<rparr>"





text \<open>
  A line as the endpoint sends it, an object with the one property \<open>response\<close>, and a
  parser for examples. On a line of this shape (the text without quote and backslash) and
  on the empty object \<open>{}\<close> it gives what \<open>JSON.parse\<close> gives; it rejects every other
  line, as \<open>JSON.parse\<close> rejects the two halves of a line that was cut.
\<close>

definition responseLine :: "jsstring \<Rightarrow> jsstring" where
  "responseLine text = [123, 34] @ js ''response'' @ [34, 58, 34] @ text @ [34, 125]"

definition sampleParse :: "jsstring \<Rightarrow> exn + parsed" where
  "sampleParse line =
     (let n = length line; body = take (n - 15) (drop 13 line) in
      if 15 \<le> n \<and> take 13 line = [123, 34] @ js ''response'' @ [34, 58, 34]
         \<and> drop (n - 2) line = [34, 125] \<and> 34 \<notin> set body \<and> 92 \<notin> set body
      then Inr (ParsedValue (Some body))
      else if line = [123, 125] then Inr (ParsedValue None)
      else Inl (Exn ''SyntaxError''))"

definition sampleChunks :: "jsstring list" where
  "sampleChunks =
     [responseLine (js ''Hel'') @ [10] @ js ''{oops'' @ [10], responseLine (js ''lo'') @ [10]]"

text \<open>The state at the start of the loop, with nothing shown yet.\<close>

definition startStream :: stream where
  "startStream = \<lparr>outputStr = [], insights = [], logged = 0\<rparr>"

text \<open>
  One line with the payload \<open>Hi\<close> and its line feed, arriving in one read, and the same
  code units arriving in two reads, cut after the eighth.
\<close>

definition wholeChunks :: "jsstring list" where
  "wholeChunks = [responseLine (js ''Hi'') @ [10]]"

definition cutChunks :: "jsstring list" where
  "cutChunks = [[123, 34] @ js ''respon'', js ''se'' @ [34, 58, 34] @ js ''Hi'' @ [34, 125, 10]]"

text \<open>
  One read of three lines: the payload \<open>a\<close>, the empty object \<open>{}\<close> (well-formed, without
  the property \<open>response\<close>) and the payload \<open>b\<close>.
\<close>

definition objectChunks :: "jsstring list" where
  "objectChunks =
     [responseLine (js ''a'') @ [10] @ [123, 125, 10] @ responseLine (js ''b'') @ [10]]"

text \<open>A read that holds whole lines only, each followed by its line feed.\<close>

definition wholeRead :: "jsstring list \<Rightarrow> jsstring" where
  "wholeRead fs = concat (map (\<lambda>f. f @ [10]) fs)"

section \<open>Properties of the structurer\<close>

lemmas regex_defs = matchGroup1_def summaryRe_def skillsRe_def experienceRe_def educationRe_def
  summaryHeadings_def summaryStops_def skillsHeadings_def skillsStops_def
  experienceHeadings_def experienceStops_def educationHeadings_def educationStops_def
  sectionRe_def heading_def boundary_def canonicalize_def isSpace_def js_def

lemmas split_defs = split_def sepLen_def skillSepRe_def entrySepRe_def trim_def

lemmas structure_defs = structureResume_def tryCatch_def tryBlock_def entries_def skillTokens_def
  emptySections_def catchBlock_def

lemma dropTrailing_keeps_head:
  "y \<noteq> [] \<Longrightarrow> \<not> P (hd y) \<Longrightarrow>
   rev (dropWhile P (rev y)) \<noteq> [] \<and> hd (rev (dropWhile P (rev y))) = hd y"
  by (cases y) (auto simp add: dropWhile_append hd_append)

lemma trim_trim: "trim (trim s) = trim s"
proof -
  let ?y = "dropWhile isSpace s"
  let ?b = "rev (dropWhile isSpace (rev ?y))"
  have front: "dropWhile isSpace ?b = ?b"
  proof (cases "?y = []")
    case True
    show ?thesis unfolding True by simp
  next
    case False
    then have "\<not> isSpace (hd ?y)" by (rule hd_dropWhile)
    then have "?b \<noteq> [] \<and> hd ?b = hd ?y"
      using False by (intro dropTrailing_keeps_head)
    then have "?b \<noteq> []" and "\<not> isSpace (hd ?b)"
      using \<open>\<not> isSpace (hd ?y)\<close> by simp_all
    then show ?thesis by (cases ?b) simp_all
  qed
  have "trim (trim s) = rev (dropWhile isSpace (rev (dropWhile isSpace ?b)))"
    by (simp add: trim_def)
  also have "\<dots> = rev (dropWhile isSpace (rev ?b))"
    by (simp only: front)
  also have "\<dots> = ?b" by simp
  finally show ?thesis by (simp add: trim_def)
qed

lemma experience_example:
  "experience (structureResume (js ''Experience:\<newline>2020 Engineer at Foo\<newline>2021 Dev\<newline>''))
   = [js ''2020 Engineer at Foo'']"
  by (simp add: structure_defs regex_defs split_defs)

text \<open>
  C5. For every resume text, the experience and the education sequences are the trimmed
  entries of the captured span that are longer than 10 code units: an entry of 10 code
  units or fewer (so every entry shorter than 10) is left out, and every entry kept is
  trimmed and longer than 10.
\<close>

theorem entries_longer_than_10:
  "experience (structureResume t) =
     (case matchGroup1 experienceRe t of None \<Rightarrow> []
      | Some c \<Rightarrow> filter (\<lambda>entry. 10 < length entry) (map trim (split entrySepRe c)))
   \<and> education (structureResume t) =
     (case matchGroup1 educationRe t of None \<Rightarrow> []
      | Some c \<Rightarrow> filter (\<lambda>entry. 10 < length entry) (map trim (split entrySepRe c)))
   \<and> (\<forall>e \<in> set (experience (structureResume t)) \<union> set (education (structureResume t)).
        10 < length e \<and> trim e = e)"
  by (auto simp add: structure_defs Let_def trim_trim split: option.splits)

theorem entries_longer_than_10_witness:
  "experience (structureResume (js ''Experience:\<newline>2020 Engineer at Foo\<newline>2021 Dev\<newline>''))
     = [js ''2020 Engineer at Foo'']
   \<and> 10 < length (js ''2020 Engineer at Foo'')"
  using entries_longer_than_10 [of "js ''Experience:\<newline>2020 Engineer at Foo\<newline>2021 Dev\<newline>''"]
    experience_example by simp

lemma no_heading_example:
  "matchGroup1 summaryRe (js ''Jane Doe'') = None \<and> matchGroup1 skillsRe (js ''Jane Doe'') = None
   \<and> matchGroup1 experienceRe (js ''Jane Doe'') = None
   \<and> matchGroup1 educationRe (js ''Jane Doe'') = None"
  by (simp add: regex_defs)

text \<open>
  C4. For every input text the \<open>try\<close> block of the structurer ends normally, so the
  structurer returns a structure and the raw text stays absent; the certifications and
  the contact are empty, and every section whose pattern finds nothing is empty. Were an
  exception raised in the block (\<open>body t = Inl e\<close> for a block \<open>body\<close>), the result would
  be the empty structure with the raw text set to the input.
\<close>

theorem structureResume_never_throws:
  "(\<exists>s. tryBlock t = Inr s)
   \<and> rawText (structureResume t) = None
   \<and> certifications (structureResume t) = []
   \<and> contact (structureResume t) = Map.empty
   \<and> (matchGroup1 summaryRe t = None \<longrightarrow> summary (structureResume t) = [])
   \<and> (matchGroup1 skillsRe t = None \<longrightarrow> skills (structureResume t) = [])
   \<and> (matchGroup1 experienceRe t = None \<longrightarrow> experience (structureResume t) = [])
   \<and> (matchGroup1 educationRe t = None \<longrightarrow> education (structureResume t) = [])
   \<and> (body t = Inl e \<longrightarrow>
        tryCatch body t =
          \<lparr>summary = [], skills = [], experience = [], education = [], certifications = [],
           contact = Map.empty, rawText = Some t\<rparr>)
   \<and> (body t = Inr s' \<longrightarrow> tryCatch body t = s')"
  by (simp add: structure_defs Let_def split: option.splits)

theorem structureResume_never_throws_witness:
  "structureResume (js ''Jane Doe'') =
     \<lparr>summary = [], skills = [], experience = [], education = [], certifications = [],
      contact = Map.empty, rawText = None\<rparr>
   \<and> tryCatch (\<lambda>text. Inl (Exn ''TypeError'')) (js ''Jane Doe'') =
     \<lparr>summary = [], skills = [], experience = [], education = [], certifications = [],
      contact = Map.empty, rawText = Some (js ''Jane Doe'')\<rparr>
   \<and> tryCatch (\<lambda>text. Inr emptySections) (js ''Jane Doe'') = emptySections"
  using structureResume_never_throws
    [of "js ''Jane Doe''" "\<lambda>text. Inl (Exn ''TypeError'')" "Exn ''TypeError''" emptySections]
    structureResume_never_throws
    [of "js ''Jane Doe''" "\<lambda>text. Inr emptySections" "Exn ''TypeError''" emptySections]
    no_heading_example
  by (cases "structureResume (js ''Jane Doe'')") simp

section \<open>Properties of the streamed insight\<close>

lemma onLine_contribution:
  "insights (onLine parse st line) = insights st @ contribution parse line"
  "outputStr (onLine parse st line) = outputStr st @ contribution parse line"
  by (simp_all add: onLine_def contribution_def split: sum.splits parsed.splits)

lemma foldl_onLine:
  "insights (foldl (onLine parse) st ls) = insights st @ concat (map (contribution parse) ls)"
  "outputStr (foldl (onLine parse) st ls) = outputStr st @ concat (map (contribution parse) ls)"
  by (induction ls arbitrary: st) (simp_all add: onLine_contribution)

lemma readLoop_contribution:
  "insights (readLoop parse st chunks) =
     insights st @ concat (map (contribution parse) (concat (map chunkLines chunks)))"
  "outputStr (readLoop parse st chunks) =
     outputStr st @ concat (map (contribution parse) (concat (map chunkLines chunks)))"
  by (induction chunks arbitrary: st) (simp_all add: foldl_onLine)

lemma contribution_payload:
  "fragmentOk parse line \<Longrightarrow> contribution parse line = payload parse line"
  by (auto simp add: fragmentOk_def contribution_def payload_def appended_def
      split: sum.splits parsed.splits option.splits)

text \<open>
  Where the code agrees with the expected text. For every sequence of reads and every
  behaviour of the parser: when no line of a read parses to a value without the property
  \<open>response\<close>, the text shown (and the local \<open>output\<close>) is what it was before followed by
  the payloads of the lines of the reads, in order. A line that does not parse brings
  nothing and does not stop the loop.
\<close>

lemma lines_in_arrival_order:
  assumes "\<forall>line \<in> set (concat (map chunkLines chunks)). fragmentOk parse line"
  shows "insights (readLoop parse st chunks) =
           insights st @ concat (map (payload parse) (concat (map chunkLines chunks)))
         \<and> outputStr (readLoop parse st chunks) =
           outputStr st @ concat (map (payload parse) (concat (map chunkLines chunks)))
         \<and> (\<forall>line e. parse line = Inl e \<longrightarrow>
              payload parse line = [] \<and> insights (onLine parse st line) = insights st)"
proof -
  have same: "map (contribution parse) (concat (map chunkLines chunks)) =
        map (payload parse) (concat (map chunkLines chunks))"
    using assms by (intro map_cong refl contribution_payload) blast
  have "insights (readLoop parse st chunks) =
           insights st @ concat (map (payload parse) (concat (map chunkLines chunks)))"
    unfolding readLoop_contribution same ..
  moreover have "outputStr (readLoop parse st chunks) =
           outputStr st @ concat (map (payload parse) (concat (map chunkLines chunks)))"
    unfolding readLoop_contribution same ..
  moreover have "\<forall>line e. parse line = Inl e \<longrightarrow>
              payload parse line = [] \<and> insights (onLine parse st line) = insights st"
    by (simp add: payload_def onLine_def)
  ultimately show ?thesis by blast
qed

lemma sampleChunks_lines:
  "concat (map chunkLines sampleChunks) =
     [responseLine (js ''Hel''), js ''{oops'', responseLine (js ''lo'')]"
  by (simp add: sampleChunks_def responseLine_def chunkLines_def trim_def isSpace_def js_def)

lemma sampleParse_lines:
  "sampleParse (responseLine (js ''Hel'')) = Inr (ParsedValue (Some (js ''Hel'')))"
  "sampleParse (js ''{oops'') = Inl (Exn ''SyntaxError'')"
  "sampleParse (responseLine (js ''lo'')) = Inr (ParsedValue (Some (js ''lo'')))"
  by (simp_all add: sampleParse_def responseLine_def js_def Let_def)

lemma lines_in_arrival_order_example:
  "insights (readLoop sampleParse startStream sampleChunks) = js ''Hel'' @ js ''lo''"
  using lines_in_arrival_order [of sampleChunks sampleParse startStream]
  by (simp add: sampleChunks_lines sampleParse_lines fragmentOk_def payload_def
      startStream_def)

text \<open>
  The lines of a read are the lines sent when the read holds whole lines: then the text
  is made of the payloads of the lines sent, in the order in which they were sent.
\<close>

lemma splitOn_whole: "10 \<notin> set f \<Longrightarrow> splitOn 10 (f @ 10 # rest) = f # splitOn 10 rest"
  by (induction f) simp_all

lemma splitOn_wholeRead:
  "\<forall>f \<in> set fs. 10 \<notin> set f \<Longrightarrow> splitOn 10 (wholeRead fs) = fs @ [[]]"
  by (induction fs) (simp_all add: wholeRead_def splitOn_whole)

lemma chunkLines_wholeRead:
  assumes "\<forall>f \<in> set fs. 10 \<notin> set f \<and> trim f \<noteq> []"
  shows "chunkLines (wholeRead fs) = fs"
proof -
  have "splitOn 10 (wholeRead fs) = fs @ [[]]"
    using assms by (intro splitOn_wholeRead) blast
  moreover have "filter (\<lambda>line. trim line \<noteq> []) fs = fs"
    using assms by (intro filter_True) blast
  ultimately show ?thesis by (simp add: chunkLines_def trim_def)
qed

lemma whole_lines_in_order:
  assumes "\<forall>fs \<in> set reads. \<forall>f \<in> set fs. 10 \<notin> set f \<and> trim f \<noteq> [] \<and> fragmentOk parse f"
  shows "insights (readLoop parse st (map wholeRead reads)) =
           insights st @ concat (map (payload parse) (concat reads))"
proof -
  have "map chunkLines (map wholeRead reads) = reads"
  proof -
    have "map (\<lambda>fs. chunkLines (wholeRead fs)) reads = map (\<lambda>fs. fs) reads"
      using assms by (intro map_cong refl chunkLines_wholeRead) blast
    then show ?thesis by (simp add: comp_def)
  qed
  then have lines: "concat (map chunkLines (map wholeRead reads)) = concat reads"
    by simp
  have "\<forall>line \<in> set (concat (map chunkLines (map wholeRead reads))). fragmentOk parse line"
    unfolding lines using assms by auto
  then have "insights (readLoop parse st (map wholeRead reads)) =
      insights st @ concat (map (payload parse) (concat (map chunkLines (map wholeRead reads))))"
    using lines_in_arrival_order [of "map wholeRead reads" parse st] by blast
  then show ?thesis unfolding lines .
qed

lemma cutChunks_same_units: "concat cutChunks = concat wholeChunks"
  by (simp add: cutChunks_def wholeChunks_def responseLine_def js_def)

text \<open>
  C2. The text is not always the payloads of the well-formed lines sent. A line with the
  payload \<open>Hi\<close> that arrives in one read is shown; the same line arriving in two reads
  is parsed as two damaged lines and nothing is shown. A well-formed line without the
  property \<open>response\<close>, between the payloads \<open>a\<close> and \<open>b\<close>, puts the text \<open>undefined\<close>
  between them.
\<close>

theorem stream_text_diverges:
  "insights (readLoop sampleParse startStream wholeChunks) = js ''Hi''
   \<and> insights (readLoop sampleParse startStream cutChunks) = []
   \<and> logged (readLoop sampleParse startStream cutChunks) = 2
   \<and> insights (readLoop sampleParse startStream objectChunks) = js ''aundefinedb''"
  by (simp add: startStream_def wholeChunks_def cutChunks_def objectChunks_def
      responseLine_def chunkLines_def trim_def isSpace_def onLine_def sampleParse_def
      appended_def js_def Let_def)

section \<open>Properties of the upload\<close>

text \<open>
  C7 as stated fails for a file of one space: nothing is extracted, the form keeps its
  empty text.
\<close>

theorem upload_blank_counterexample:
  "resumeText (fst (handleResumeUpload
      (Some \<lparr>ftype = ''text/plain'', readAsText = Inr (js '' ''),
             extractRawText = Inl (Exn ''not a document'')\<rparr>)
      \<lparr>name = '''', email = '''', phone = '''', coverLetter = [], resumeText = []\<rparr>))
   \<noteq> js '' ''"
  by (simp add: handleResumeUpload_def extractText_def trim_def isSpace_def js_def)

text \<open>
  C7, as amended. For a plain-text upload that reads as the string \<open>S\<close>: when \<open>S\<close> has a
  code unit that is not white space, the text extracted is \<open>S\<close> exactly; when \<open>S\<close> is
  empty or white space only, the upload fails with the message that no text could be
  extracted and the form keeps what it had.
\<close>

theorem upload_plain_text:
  "ftype file = ''text/plain'' \<Longrightarrow> readAsText file = Inr S \<Longrightarrow>
   (trim S \<noteq> [] \<longrightarrow>
      handleResumeUpload (Some file) fd =
        (fd\<lparr>resumeText := S\<rparr>, [ToastSuccess ''Resume processed successfully!'' None]))
   \<and> (trim S = [] \<longrightarrow>
      handleResumeUpload (Some file) fd =
        (fd, [ToastError ''Error processing resume: Could not extract text from the file'' None]))"
  by (simp add: handleResumeUpload_def extractText_def)

theorem upload_plain_text_witness:
  "resumeText (fst (handleResumeUpload
      (Some \<lparr>ftype = ''text/plain'', readAsText = Inr (js ''Skills: Go''),
             extractRawText = Inl (Exn ''not a document'')\<rparr>)
      \<lparr>name = '''', email = '''', phone = '''', coverLetter = [], resumeText = []\<rparr>))
   = js ''Skills: Go''
   \<and> handleResumeUpload
      (Some \<lparr>ftype = ''text/plain'', readAsText = Inr (js '' ''),
             extractRawText = Inl (Exn ''not a document'')\<rparr>)
      \<lparr>name = '''', email = '''', phone = '''', coverLetter = [], resumeText = []\<rparr>
   = (\<lparr>name = '''', email = '''', phone = '''', coverLetter = [], resumeText = []\<rparr>,
      [ToastError ''Error processing resume: Could not extract text from the file'' None])"
  using upload_plain_text
    [of "\<lparr>ftype = ''text/plain'', readAsText = Inr (js ''Skills: Go''),
             extractRawText = Inl (Exn ''not a document'')\<rparr>" "js ''Skills: Go''"
        "\<lparr>name = '''', email = '''', phone = '''', coverLetter = [], resumeText = []\<rparr>"]
    upload_plain_text
    [of "\<lparr>ftype = ''text/plain'', readAsText = Inr (js '' ''),
             extractRawText = Inl (Exn ''not a document'')\<rparr>" "js '' ''"
        "\<lparr>name = '''', email = '''', phone = '''', coverLetter = [], resumeText = []\<rparr>"]
  by (simp add: trim_def isSpace_def js_def)

section \<open>Properties of the review screens\<close>

text \<open>
  C8. An item whose status is \<open>selected\<close> or \<open>rejected\<close> offers neither the button
  \<open>Select\<close> nor the button \<open>Reject\<close>, in both variants of the screen; where one of the two
  buttons is offered the status is \<open>pending\<close>, and a pending item offers both.
\<close>

theorem terminal_offers_no_decision:
  "(row_status a = ''selected'' \<or> row_status a = ''rejected'' \<longrightarrow>
      SelectButton \<notin> set (itemControls a) \<and> RejectButton \<notin> set (itemControls a)
      \<and> SelectButton \<notin> set (itemControlsManual a) \<and> RejectButton \<notin> set (itemControlsManual a))
   \<and> (SelectButton \<in> set (itemControls a) \<or> RejectButton \<in> set (itemControls a) \<longrightarrow>
      row_status a = ''pending'')
   \<and> (row_status a = ''pending'' \<longrightarrow>
      SelectButton \<in> set (itemControls a) \<and> RejectButton \<in> set (itemControls a))"
  by (simp add: itemControls_def itemControlsManual_def)

theorem terminal_offers_no_decision_witness:
  "itemControls \<lparr>row_id = ''a1'', resume_text = [], row_status = ''selected'',
      candidate = \<lparr>full_name = ''Ada'', cand_email = ''ada@example.org''\<rparr>,
      parsed_resume = None\<rparr> = [SelectedBadge, ParseButton]
   \<and> itemControls \<lparr>row_id = ''a2'', resume_text = [], row_status = ''pending'',
      candidate = \<lparr>full_name = ''Bob'', cand_email = ''bob@example.org''\<rparr>,
      parsed_resume = None\<rparr> = [SelectButton, RejectButton, ParseButton]"
  using terminal_offers_no_decision
    [of "\<lparr>row_id = ''a1'', resume_text = [], row_status = ''selected'',
      candidate = \<lparr>full_name = ''Ada'', cand_email = ''ada@example.org''\<rparr>,
      parsed_resume = None\<rparr>"]
  by (simp add: itemControls_def)

text \<open>
  C10. When an application is loaded and the backend accepts the update, \<open>updateStatus\<close>
  writes the requested status into every row with the id of the application, whatever
  the status stored before, \<open>selected\<close> or \<open>rejected\<close> included.
\<close>

theorem updateStatus_unconditional:
  "application w = Some a \<Longrightarrow> updateError (app_id a) = None \<Longrightarrow>
   stored (updateStatus updateError d w) =
     map (\<lambda>r. if app_id r = app_id a then r\<lparr>status := statusOf d\<rparr> else r) (stored w)"
  by (simp add: updateStatus_def dbUpdate_def)

theorem updateStatus_unconditional_witness:
  "stored (updateStatus (\<lambda>i. None) Rejected
      \<lparr>application = Some (sampleApplication ''a1'' ''selected''), updating = False,
       wentBack = False, notices = [],
       stored = [sampleApplication ''a1'' ''selected'', sampleApplication ''a2'' ''pending'']\<rparr>)
   = [sampleApplication ''a1'' ''rejected'', sampleApplication ''a2'' ''pending'']"
  using updateStatus_unconditional
    [of "\<lparr>application = Some (sampleApplication ''a1'' ''selected''), updating = False,
       wentBack = False, notices = [],
       stored = [sampleApplication ''a1'' ''selected'', sampleApplication ''a2'' ''pending'']\<rparr>"
      "sampleApplication ''a1'' ''selected''" "\<lambda>i. None" Rejected]
  by (simp add: sampleApplication_def)









lemma single_job: "job (reviewSingleApplication ue fe a w) = job w"
  by (simp add: reviewSingleApplication_def fetchJobAndApplications_def Let_def
      split: option.splits)





lemma fold_job:
  "job (foldl (\<lambda>st app. reviewSingleApplication ue fe app st) w as) = job w"
  by (induction as arbitrary: w) (simp_all add: single_job)








section \<open>What a section pattern captures\<close>

lemma oneOf_Cons: "rs \<noteq> [] \<Longrightarrow> oneOf (r # rs) = Alt r (oneOf rs)"
  by (cases rs) simp_all

lemma ciPrefix_append: "ciPrefix w h \<Longrightarrow> length h = length w \<Longrightarrow> ciPrefix w (h @ s)"
  by (induction w h rule: ciPrefix.induct) simp_all

lemma starGreedy_map:
  "starGreedy c (\<lambda>s. map_option h (k s)) s = map_option h (starGreedy c k s)"
  by (induction s) (simp_all split: option.splits)

lemma starGreedy_run:
  assumes "\<forall>x \<in> set sp. cmatch c x" and "r = [] \<or> \<not> cmatch c (hd r)" and "k r = Some y"
  shows "starGreedy c k (sp @ r) = Some y"
  using assms
proof (induction sp)
  case Nil
  then show ?case by (cases r) auto
next
  case (Cons x sp)
  then show ?case by simp
qed

lemma starLazy_first:
  assumes "\<forall>i < length body. k (drop i body @ r) = None"
  shows "starLazy AnyChar k (body @ r) = starLazy AnyChar k r"
  using assms
proof (induction body)
  case Nil
  then show ?case by simp
next
  case (Cons x body)
  have "k ((x # body) @ r) = None" using Cons.prems by force
  moreover have "\<forall>i < length body. k (drop i body @ r) = None"
  proof (intro allI impI)
    fix i assume "i < length body"
    then have "k (drop (Suc i) (x # body) @ r) = None" using Cons.prems by force
    then show "k (drop i body @ r) = None" by simp
  qed
  ultimately show ?case using Cons.IH by simp
qed

lemma starLazy_here: "k s = Some y \<Longrightarrow> starLazy c k s = Some y"
  by (cases s) simp_all

text \<open>The capture passes through the alternatives of a boundary unchanged.\<close>

lemma stops_capture:
  "rmatch (oneOf (map (\<lambda>w. Str (js w)) ws @ [Eos])) Some (s, c) =
     map_option (\<lambda>st. (fst st, c)) (rmatch (oneOf (map (\<lambda>w. Str (js w)) ws @ [Eos])) Some (s, None))"
  by (induction ws) (simp_all add: oneOf_Cons split: option.splits)

lemma boundary_capture:
  "rmatch (boundary stops) Some (s, c) =
     map_option (\<lambda>st. (fst st, c)) (rmatch (boundary stops) Some (s, None))"
proof -
  let ?alts = "oneOf (map (\<lambda>w. Str (js w)) stops @ [Eos])"
  have "(\<lambda>s'. rmatch ?alts Some (s', c)) =
        (\<lambda>s'. map_option (\<lambda>st. (fst st, c)) (rmatch ?alts Some (s', None)))"
    by (rule ext) (rule stops_capture)
  then show ?thesis
    by (simp add: boundary_def starGreedy_map)
qed

lemma look_boundary:
  "rmatch (Look (boundary stops)) Some (s, c) = (if boundaryAt stops s then Some (s, c) else None)"
  by (cases "rmatch (boundary stops) Some (s, None)")
     (simp_all add: boundaryAt_def boundary_capture [of stops s c])

lemma boundaryAt_newline: "boundaryAt stops s \<Longrightarrow> s \<noteq> [] \<and> hd s = 10"
  by (cases s) (auto simp add: boundaryAt_def boundary_def canonicalize_def split: if_splits)

text \<open>The headings.\<close>

lemma heading_none:
  "\<not> headingAt heads s \<Longrightarrow> heads \<noteq> [] \<Longrightarrow> rmatch (heading heads) k (s, c) = None"
proof (induction heads)
  case Nil
  then show ?case by simp
next
  case (Cons w ws)
  show ?case
  proof (cases ws)
    case Nil
    then show ?thesis using Cons.prems by (simp add: heading_def headingAt_def)
  next
    case (Cons v vs)
    then show ?thesis using Cons.prems Cons.IH
      by (simp add: heading_def headingAt_def)
  qed
qed

lemma heading_first:
  assumes "ciPrefix (js w) s" and "k (drop (length (js w)) s, c) = Some y"
  shows "rmatch (heading (w # ws)) k (s, c) = Some y"
  using assms by (cases ws) (simp_all add: heading_def)

lemma exec_skip:
  assumes "\<forall>i < length pre. rmatch r Some (drop i pre @ s, None) = None"
  shows "exec r (pre @ s) = exec r s"
  using assms
proof (induction pre)
  case Nil
  then show ?case by simp
next
  case (Cons x pre)
  have "rmatch r Some ((x # pre) @ s, None) = None" using Cons.prems by force
  moreover have "\<forall>i < length pre. rmatch r Some (drop i pre @ s, None) = None"
  proof (intro allI impI)
    fix i assume "i < length pre"
    then have "rmatch r Some (drop (Suc i) (x # pre) @ s, None) = None" using Cons.prems by force
    then show "rmatch r Some (drop i pre @ s, None) = None" by simp
  qed
  ultimately show ?case using Cons.IH by simp
qed

lemma exec_here: "rmatch r Some (s, None) = Some y \<Longrightarrow> exec r s = Some y"
  by (cases s) simp_all

text \<open>The span that a section pattern captures.\<close>

lemma section_here:
  assumes h: "ciPrefix (js w) h" "length h = length (js w)"
      and sp: "\<forall>x \<in> set sp. cmatch ColonSpace x"
      and body: "body \<noteq> []" "\<not> cmatch ColonSpace (hd body)"
      and inside: "\<forall>i < length body. \<not> boundaryAt stops (drop i body @ 10 # tail)"
      and after: "boundaryAt stops (10 # tail)"
  shows "rmatch (sectionRe (w # ws) stops) Some (h @ sp @ body @ 10 # tail, None) =
           Some (10 # tail, Some body)"
proof -
  let ?s0 = "body @ 10 # tail"
  let ?kl = "\<lambda>s. rmatch (Look (boundary stops)) Some (s, Some (take (length ?s0 - length s) ?s0))"
  have lazy: "starLazy AnyChar ?kl ?s0 = Some (10 # tail, Some body)"
  proof -
    have "\<forall>i < length body. ?kl (drop i body @ 10 # tail) = None"
      using inside by (simp add: look_boundary del: rmatch.simps(8))
    then have skip: "starLazy AnyChar ?kl ?s0 = starLazy AnyChar ?kl (10 # tail)"
      by (rule starLazy_first)
    have "?kl (10 # tail) = Some (10 # tail, Some body)"
      using after by (simp add: look_boundary del: rmatch.simps(8))
    then have "starLazy AnyChar ?kl (10 # tail) = Some (10 # tail, Some body)"
      by (rule starLazy_here)
    with skip show ?thesis by (rule trans)
  qed
  let ?k2 = "rmatch (Seq (Group (LazyStar AnyChar)) (Look (boundary stops))) Some"
  have k2: "?k2 (?s0, None) = Some (10 # tail, Some body)"
    using lazy by (simp del: rmatch.simps(8))
  have "starGreedy ColonSpace (\<lambda>s. ?k2 (s, None)) (sp @ ?s0) = Some (10 # tail, Some body)"
    using sp body k2 by (intro starGreedy_run) auto
  then have k1: "rmatch (Seq (Star ColonSpace) (Seq (Group (LazyStar AnyChar)) (Look (boundary stops))))
     Some (sp @ ?s0, None) = Some (10 # tail, Some body)"
    by (simp del: rmatch.simps(8))
  have pre: "ciPrefix (js w) (h @ sp @ ?s0)"
    using h by (rule ciPrefix_append)
  have "rmatch (heading (w # ws))
          (rmatch (Seq (Star ColonSpace) (Seq (Group (LazyStar AnyChar)) (Look (boundary stops)))) Some)
          (h @ sp @ ?s0, None) = Some (10 # tail, Some body)"
    using pre k1 h(2) by (intro heading_first) simp_all
  then show ?thesis by (simp add: sectionRe_def)
qed

lemma section_capture:
  assumes h: "ciPrefix (js w) h" "length h = length (js w)"
      and sp: "\<forall>x \<in> set sp. cmatch ColonSpace x"
      and body: "body \<noteq> []" "\<not> cmatch ColonSpace (hd body)"
      and inside: "\<forall>i < length body. \<not> boundaryAt stops (drop i body @ 10 # tail)"
      and after: "boundaryAt stops (10 # tail)"
      and before: "\<forall>i < length pre. \<not> headingAt (w # ws) (drop i pre @ h @ sp @ body @ 10 # tail)"
  shows "matchGroup1 (sectionRe (w # ws) stops) (pre @ h @ sp @ body @ 10 # tail) = Some body"
proof -
  let ?t = "h @ sp @ body @ 10 # tail"
  have "\<forall>i < length pre. rmatch (sectionRe (w # ws) stops) Some (drop i pre @ ?t, None) = None"
    using before by (simp add: sectionRe_def heading_none)
  then have "exec (sectionRe (w # ws) stops) (pre @ ?t) = exec (sectionRe (w # ws) stops) ?t"
    by (rule exec_skip)
  also have "\<dots> = Some (10 # tail, Some body)"
    using section_here [OF h sp body inside after] by (rule exec_here)
  finally show ?thesis using body(1) by (simp add: matchGroup1_def)
qed

lemma sepLen_skill: "sepLen skillSepRe (x # xs) = (if cmatch SkillSep x then Some (Suc 0) else None)"
  by (simp add: sepLen_def skillSepRe_def)

lemma splitLoop_token:
  "\<forall>c \<in> set t. \<not> cmatch SkillSep c \<Longrightarrow>
   splitLoop skillSepRe acc 0 (t @ rest) = splitLoop skillSepRe (acc @ t) 0 rest"
  by (induction t arbitrary: acc) (simp_all add: sepLen_skill del: cmatch.simps)

lemma splitLoop_join:
  "toks \<noteq> [] \<Longrightarrow> \<forall>t \<in> set toks. \<forall>c \<in> set t. \<not> cmatch SkillSep c \<Longrightarrow>
   splitLoop skillSepRe acc 0 (joinWith 44 toks) = (acc @ hd toks) # tl toks"
proof (induction toks arbitrary: acc)
  case Nil
  then show ?case by simp
next
  case (Cons t ts)
  have t: "\<forall>c \<in> set t. \<not> cmatch SkillSep c" using Cons.prems by simp
  show ?case
  proof (cases ts)
    case Nil
    then show ?thesis using splitLoop_token [OF t, of acc "[]"] by simp
  next
    case (Cons u us)
    then have "splitLoop skillSepRe [] 0 (joinWith 44 ts) = ([] @ hd ts) # tl ts"
      using Cons.prems Cons.IH by simp
    then show ?thesis
      using Cons splitLoop_token [OF t, of acc "44 # joinWith 44 ts"]
      by (simp add: sepLen_skill)
  qed
qed

lemma split_join:
  assumes "toks \<noteq> []" and "\<forall>t \<in> set toks. \<forall>c \<in> set t. \<not> cmatch SkillSep c"
  shows "split skillSepRe (joinWith 44 toks) = toks"
proof -
  have "split skillSepRe (joinWith 44 toks) = splitLoop skillSepRe [] 0 (joinWith 44 toks)"
    by (simp add: split_def sepLen_def skillSepRe_def)
  then show ?thesis using splitLoop_join [OF assms, of "[]"] assms(1) by simp
qed

lemma joinWith_set: "set (joinWith c toks) \<subseteq> insert c (\<Union> (set ` set toks))"
  by (induction c toks rule: joinWith.induct) auto

lemma skills_of_match:
  "skills (structureResume t) =
     (case matchGroup1 skillsRe t of None \<Rightarrow> []
      | Some c \<Rightarrow> filter (\<lambda>skill. skill \<noteq> []) (map trim (split skillSepRe c)))"
  by (simp add: structure_defs Let_def split: option.splits)

lemma skills_example_hyps:
  "boundaryAt skillsStops (10 # js ''Experience:\<newline>2020 Engineer at Foo'')"
  by (simp add: boundaryAt_def boundary_def skillsStops_def js_def canonicalize_def isSpace_def)

text \<open>
  C1 as stated fails for a list whose first token holds a bar: the code splits at the bar
  as well, so the output has three tokens where the comma-separated list has two.
\<close>

theorem skills_bar_counterexample:
  "skills (structureResume (js ''Skills: CI|CD, Go\<newline>'')) = [js ''CI'', js ''CD'', js ''Go'']
   \<and> skills (structureResume (js ''Skills: CI|CD, Go\<newline>'')) \<noteq> [js ''CI|CD'', js ''Go'']"
  by (simp add: structure_defs regex_defs split_defs)

text \<open>
  C1, as amended. Let the text be \<open>pre\<close>, then the word \<open>Skills\<close> in any letter case, then
  colons and white space, then a list of tokens joined by commas, then a line feed and a
  rest. Let no heading word of the skills pattern start inside \<open>pre\<close>; let no token hold a
  separator of the code (comma, bar, line feed, U+00E2, U+20AC, U+00A2); let the list start
  with a code unit that is neither colon nor white space; and let the lookahead of the
  pattern succeed at the line feed (after it and optional white space comes a stop
  heading or the end of the text). Then the skills are the trimmed tokens of the list
  that are not empty, in the order of the list.
\<close>

theorem skills_of_comma_list:
  assumes toks: "toks \<noteq> []" "\<forall>t \<in> set toks. \<forall>c \<in> set t. \<not> cmatch SkillSep c"
      and first: "joinWith 44 toks \<noteq> []" "\<not> cmatch ColonSpace (hd (joinWith 44 toks))"
      and h: "ciPrefix (js ''Skills'') h" "length h = 6"
      and sp: "\<forall>x \<in> set sp. cmatch ColonSpace x"
      and after: "boundaryAt skillsStops (10 # tail)"
      and before: "\<forall>i < length pre.
             \<not> headingAt skillsHeadings (drop i pre @ h @ sp @ joinWith 44 toks @ 10 # tail)"
  shows "skills (structureResume (pre @ h @ sp @ joinWith 44 toks @ 10 # tail)) =
           filter (\<lambda>t. t \<noteq> []) (map trim toks)"
proof -
  let ?body = "joinWith 44 toks"
  have no_nl: "10 \<notin> set ?body"
  proof
    assume "10 \<in> set ?body"
    then have "10 \<in> insert 44 (\<Union> (set ` set toks))"
      using joinWith_set [of 44 toks] by blast
    then obtain t where "t \<in> set toks" and "10 \<in> set t" by auto
    then show False using toks(2) by auto
  qed
  have inside: "\<forall>i < length ?body. \<not> boundaryAt skillsStops (drop i ?body @ 10 # tail)"
  proof (intro allI impI notI)
    fix i assume i: "i < length ?body" and b: "boundaryAt skillsStops (drop i ?body @ 10 # tail)"
    have "hd (drop i ?body @ 10 # tail) = ?body ! i"
      using i by (simp add: hd_append hd_drop_conv_nth)
    moreover have "?body ! i \<in> set ?body" using i by simp
    ultimately show False using boundaryAt_newline [OF b] no_nl by simp
  qed
  have len: "length h = length (js ''Skills'')" using h(2) by (simp add: js_def)
  have "matchGroup1 (sectionRe (''Skills'' # [''Expertise'', ''Competencies'', ''Technical Skills''])
           skillsStops) (pre @ h @ sp @ ?body @ 10 # tail) = Some ?body"
    using h(1) len sp first inside after before [unfolded skillsHeadings_def]
    by (rule section_capture)
  then have "matchGroup1 skillsRe (pre @ h @ sp @ ?body @ 10 # tail) = Some ?body"
    by (simp add: skillsRe_def skillsHeadings_def)
  then show ?thesis
    by (simp add: skills_of_match split_join [OF toks])
qed

theorem skills_of_comma_list_witness:
  "skills (structureResume (js ''Skills: Go, Rust, C++\<newline>Experience:\<newline>2020 Engineer at Foo''))
     = [js ''Go'', js ''Rust'', js ''C++'']"
  using skills_of_comma_list
    [of "[js ''Go'', js '' Rust'', js '' C++'']" "js ''Skills''" "js '': ''"
        "js ''Experience:\<newline>2020 Engineer at Foo''" "[]"]
    skills_example_hyps
  by (simp add: js_def canonicalize_def isSpace_def trim_def)

lemma summary_of_match:
  "summary (structureResume t) =
     (case matchGroup1 summaryRe t of None \<Rightarrow> [] | Some c \<Rightarrow> trim c)"
  by (simp add: structure_defs Let_def split: option.splits)

text \<open>
  Where the lookahead succeeds the summary is as expected: after the first heading word
  \<open>Summary\<close>, colons and white space, the text up to the line feed at which the lookahead
  first succeeds, trimmed.
\<close>

lemma summary_of_section:
  assumes "ciPrefix (js ''Summary'') h" and "length h = 7"
      and "\<forall>x \<in> set sp. cmatch ColonSpace x"
      and "body \<noteq> []" and "\<not> cmatch ColonSpace (hd body)"
      and "\<forall>i < length body. \<not> boundaryAt summaryStops (drop i body @ 10 # tail)"
      and "boundaryAt summaryStops (10 # tail)"
      and "\<forall>i < length pre.
             \<not> headingAt summaryHeadings (drop i pre @ h @ sp @ body @ 10 # tail)"
  shows "summary (structureResume (pre @ h @ sp @ body @ 10 # tail)) = trim body"
proof -
  have len: "length h = length (js ''Summary'')" using assms(2) by (simp add: js_def)
  have "matchGroup1 (sectionRe (''Summary'' # [''Profile'', ''About'', ''Objective''])
           summaryStops) (pre @ h @ sp @ body @ 10 # tail) = Some body"
    using assms(1) len assms(3-7) assms(8) [unfolded summaryHeadings_def]
    by (rule section_capture)
  then have "matchGroup1 summaryRe (pre @ h @ sp @ body @ 10 # tail) = Some body"
    by (simp add: summaryRe_def summaryHeadings_def)
  then show ?thesis by (simp add: summary_of_match)
qed

lemma starGreedy_fails:
  "(\<And>s'. set s' \<subseteq> set s \<Longrightarrow> k s' = None) \<Longrightarrow> starGreedy c k s = None"
proof (induction s)
  case Nil
  then show ?case by simp
next
  case (Cons x s)
  have "starGreedy c k s = None"
    by (rule Cons.IH) (rule Cons.prems, auto)
  moreover have "k (x # s) = None" by (rule Cons.prems) simp
  ultimately show ?case by simp
qed

lemma starLazy_fails:
  "(\<And>s'. set s' \<subseteq> set s \<Longrightarrow> k s' = None) \<Longrightarrow> starLazy c k s = None"
proof (induction s)
  case Nil
  then show ?case by simp
next
  case (Cons x s)
  have "starLazy c k s = None"
    by (rule Cons.IH) (rule Cons.prems, auto)
  moreover have "k (x # s) = None" by (rule Cons.prems) simp
  ultimately show ?case by simp
qed

text \<open>
  A match fails when its continuation fails on every state whose input is made of code
  units of the input at the start (as every rest of the input is).
\<close>

lemma rmatch_fails:
  "(\<And>s' c'. set s' \<subseteq> set (fst st) \<Longrightarrow> k (s', c') = None) \<Longrightarrow> rmatch r k st = None"
proof (induction r arbitrary: k st)
  case (Str w)
  have "set (drop (length w) (fst st)) \<subseteq> set (fst st)" by (rule set_drop_subset)
  then show ?case using Str by simp
next
  case (Cls c)
  then show ?case by (cases "fst st") auto
next
  case (Seq a b)
  show ?case
    unfolding rmatch.simps
  proof (rule Seq.IH(1))
    fix s' c' assume s': "set s' \<subseteq> set (fst st)"
    show "rmatch b k (s', c') = None"
    proof (rule Seq.IH(2))
      fix s'' c'' assume "set s'' \<subseteq> set (fst (s', c'))"
      then have "set s'' \<subseteq> set (fst st)" using s' by auto
      then show "k (s'', c'') = None" by (rule Seq.prems)
    qed
  qed
next
  case (Alt a b)
  have "rmatch a k st = None" by (rule Alt.IH(1)) (rule Alt.prems)
  moreover have "rmatch b k st = None" by (rule Alt.IH(2)) (rule Alt.prems)
  ultimately show ?case by simp
next
  case (Star c)
  show ?case unfolding rmatch.simps by (rule starGreedy_fails) (rule Star)
next
  case (LazyStar c)
  show ?case unfolding rmatch.simps by (rule starLazy_fails) (rule LazyStar)
next
  case (Group a)
  show ?case unfolding rmatch.simps by (rule Group.IH) (simp add: Group.prems)
next
  case (Look a)
  have "k (fst st, c') = None" for c' by (rule Look.prems) simp
  then show ?case by (simp split: option.splits)
next
  case Eos
  have "k (fst st, snd st) = None" by (rule Eos) simp
  then show ?case by simp
qed



lemma rmatch_Seq_fun: "rmatch (Seq a b) k = rmatch a (rmatch b k)"
  by (rule ext) simp

lemma section_needs_line_feed:
  assumes "10 \<notin> set s"
  shows "rmatch (sectionRe heads stops) Some (s, c) = None"
proof -
  let ?front = "Seq (heading heads) (Seq (Star ColonSpace) (Group (LazyStar AnyChar)))"
  have "rmatch ?front (rmatch (Look (boundary stops)) Some) (s, c) = None"
  proof (rule rmatch_fails)
    fix s' c' assume "set s' \<subseteq> set (fst (s, c))"
    then have "10 \<notin> set s'" using assms by auto
    then have "\<not> boundaryAt stops s'"
      using boundaryAt_newline [of stops s'] by (cases s') auto
    then show "rmatch (Look (boundary stops)) Some (s', c') = None"
      by (simp add: look_boundary del: rmatch.simps(8))
  qed
  then show ?thesis unfolding sectionRe_def rmatch_Seq_fun .
qed

lemma exec_needs_line_feed:
  "10 \<notin> set t \<Longrightarrow> exec (sectionRe heads stops) t = None"
  by (induction t) (simp_all add: section_needs_line_feed)

text \<open>
  A text without a line feed gives the empty structure, whatever headings it has: each of
  the four lookaheads asks for a line feed.
\<close>

lemma no_line_feed_no_sections:
  "10 \<notin> set t \<Longrightarrow> structureResume t = emptySections"
  by (simp add: structure_defs matchGroup1_def summaryRe_def skillsRe_def experienceRe_def
      educationRe_def exec_needs_line_feed)

text \<open>
  C6. Where the text of the summary runs to the end of the input without a closing line
  feed the pattern does not match and the summary stays empty, although the claim has
  the capture run up to the end of the text; with the line feed the summary is the text
  after the heading.
\<close>

theorem summary_needs_line_feed:
  "summary (structureResume (js ''Summary: Experienced developer'')) = []
   \<and> summary (structureResume (js ''Summary: Experienced developer\<newline>''))
       = js ''Experienced developer''"
  by (simp add: structure_defs regex_defs split_defs)

end
